theory Spec2Isabelle
  imports Complex_Main "HOL-Library.AList"
begin

section \<open>Python strings and the builtins the converter uses\<close>

text \<open>
  A Python \<open>str\<close> is a sequence of Unicode code points, so text is a list of code
  points. \<open>str\<close> turns an Isabelle string literal into such a list and \<open>ch\<close> gives the
  code point of one character.

  Two character classes of Python are tables of the Unicode database. The white space
  table (\<open>str.isspace\<close>, \<open>str.strip\<close>, \<open>str.split\<close>) is written out in full. The
  decimal digits (\<open>\d\<close> of \<open>re\<close>, \<open>int\<close>) are the ASCII digits here: the digits of other
  scripts, which Python accepts as well, are outside this model, and so is the limit
  that recent interpreters put on the number of digits \<open>int\<close> converts.
\<close>

type_synonym pystr = "nat list"

abbreviation (input) ch :: "char \<Rightarrow> nat" where
  "ch c \<equiv> of_char c"

definition str :: "string \<Rightarrow> pystr" where
  "str s = map of_char s"

definition isspace :: "nat \<Rightarrow> bool" where
  "isspace c = ((9 \<le> c \<and> c \<le> 13) \<or> (28 \<le> c \<and> c \<le> 32) \<or> c = 0x85 \<or> c = 0xA0
     \<or> c = 0x1680 \<or> (0x2000 \<le> c \<and> c \<le> 0x200A) \<or> c = 0x2028 \<or> c = 0x2029
     \<or> c = 0x202F \<or> c = 0x205F \<or> c = 0x3000)"

definition isdigit :: "nat \<Rightarrow> bool" where
  "isdigit c = (ch CHR ''0'' \<le> c \<and> c \<le> ch CHR ''9'')"

definition ishex :: "nat \<Rightarrow> bool" where
  "ishex c = (isdigit c \<or> (ch CHR ''a'' \<le> c \<and> c \<le> ch CHR ''f'')
     \<or> (ch CHR ''A'' \<le> c \<and> c \<le> ch CHR ''F''))"

definition isalpha_us :: "nat \<Rightarrow> bool" where
  \<comment> \<open>the class \<open>[_a-zA-Z]\<close>\<close>
  "isalpha_us c = (c = ch CHR ''_'' \<or> (ch CHR ''a'' \<le> c \<and> c \<le> ch CHR ''z'')
     \<or> (ch CHR ''A'' \<le> c \<and> c \<le> ch CHR ''Z''))"

definition isalnum_us :: "nat \<Rightarrow> bool" where
  \<comment> \<open>the class \<open>[_a-zA-Z0-9]\<close>\<close>
  "isalnum_us c = (isalpha_us c \<or> isdigit c)"

definition strip :: "pystr \<Rightarrow> pystr" where
  "strip s = rev (dropWhile isspace (rev (dropWhile isspace s)))"

text \<open>\<open>s.split()\<close>: the maximal runs of characters that are not white space.\<close>

fun split_acc :: "pystr \<Rightarrow> pystr \<Rightarrow> pystr list" where
  "split_acc cur [] = (if cur = [] then [] else [cur])"
| "split_acc cur (c # cs) =
     (if isspace c then (if cur = [] then split_acc [] cs else cur # split_acc [] cs)
      else split_acc (cur @ [c]) cs)"

definition split :: "pystr \<Rightarrow> pystr list" where
  "split s = split_acc [] s"

text \<open>\<open>s[i:j]\<close> for indices that are not negative, and \<open>s[1:-1]\<close>.\<close>

definition slice :: "pystr \<Rightarrow> nat \<Rightarrow> nat \<Rightarrow> pystr" where
  "slice s i j = take (j - i) (drop i s)"

definition slice_inner :: "pystr \<Rightarrow> pystr" where
  "slice_inner s = butlast (tl s)"

text \<open>
  \<open>s.lower()\<close> on the ASCII letters. The converter only asks whether the lowered text
  starts with \<open>0x\<close>, and no character outside ASCII is lowered to \<open>0\<close> or \<open>x\<close>.
\<close>

definition lower :: "pystr \<Rightarrow> pystr" where
  "lower s = map (\<lambda>c. if ch CHR ''A'' \<le> c \<and> c \<le> ch CHR ''Z'' then c + 32 else c) s"

definition startswith :: "pystr \<Rightarrow> pystr \<Rightarrow> bool" where
  "startswith s p = (take (length p) s = p)"

text \<open>\<open>s.replace(old, new)\<close> for an \<open>old\<close> of the two characters \<open>a\<close>, \<open>b\<close>.\<close>

fun replace2 :: "nat \<Rightarrow> nat \<Rightarrow> pystr \<Rightarrow> pystr \<Rightarrow> pystr" where
  "replace2 a b new (x # y # r) =
     (if x = a \<and> y = b then new @ replace2 a b new r else x # replace2 a b new (y # r))"
| "replace2 a b new s = s"

text \<open>
  \<open>int(s, base)\<close> on a string: white space around the number is dropped, a sign may
  come first, for base 16 a prefix \<open>0x\<close> or \<open>0X\<close> (and one underscore after it) may
  follow, then come digits below the base with single underscores between them. Any
  other text raises \<open>ValueError\<close>, which is \<open>None\<close> here.
\<close>

definition digit_value :: "nat \<Rightarrow> nat option" where
  "digit_value c =
     (if isdigit c then Some (c - ch CHR ''0'')
      else if ch CHR ''a'' \<le> c \<and> c \<le> ch CHR ''z'' then Some (c - ch CHR ''a'' + 10)
      else if ch CHR ''A'' \<le> c \<and> c \<le> ch CHR ''Z'' then Some (c - ch CHR ''A'' + 10)
      else None)"

fun scan_digits :: "nat \<Rightarrow> bool \<Rightarrow> nat \<Rightarrow> pystr \<Rightarrow> nat option" where
  "scan_digits base prev_us acc [] = (if prev_us then None else Some acc)"
| "scan_digits base prev_us acc (c # cs) =
     (if c = ch CHR ''_'' then (if prev_us then None else scan_digits base True acc cs)
      else case digit_value c of
             None \<Rightarrow> None
           | Some d \<Rightarrow> if d < base then scan_digits base False (acc * base + d) cs else None)"

definition digits_value :: "nat \<Rightarrow> pystr \<Rightarrow> nat option" where
  "digits_value base s =
     (case s of [] \<Rightarrow> None
      | c # cs \<Rightarrow> if c = ch CHR ''_'' then None else scan_digits base False 0 s)"

definition py_int :: "nat \<Rightarrow> pystr \<Rightarrow> int option" where
  "py_int base s =
     (let s1 = strip s;
          neg = (s1 \<noteq> [] \<and> hd s1 = ch CHR ''-'');
          s2 = (if s1 \<noteq> [] \<and> (hd s1 = ch CHR ''+'' \<or> hd s1 = ch CHR ''-'') then tl s1 else s1);
          s3 = (if base = 16 \<and> (startswith s2 (str ''0x'') \<or> startswith s2 (str ''0X''))
                then (if startswith (drop 2 s2) (str ''_'') then drop 3 s2 else drop 2 s2)
                else s2)
      in case digits_value base s3 of
           None \<Rightarrow> None
         | Some n \<Rightarrow> Some (if neg then - int n else int n))"

section \<open>Tokens\<close>

datatype TokenType =
    NAME | NUMBER | HEX | STRING | BOOL_TRUE | BOOL_FALSE | LIST_START | LPAREN | RPAREN
  | STRUCT_START | STRUCT_END | ASSIGN | COMMA | DEFINE | SEMICOLON | LBRACK | RBRACK
  | CHR_START | PLUS | MINUS | MUL | DIV | EOF

record Token =
  ttype :: TokenType
  tvalue :: pystr
  tline :: nat
  tcol :: nat

section \<open>The lexer\<close>

record Lexer =
  source :: pystr
  pos :: nat
  line :: nat
  col :: nat

definition Lexer_init :: "pystr \<Rightarrow> Lexer" where
  "Lexer_init t = \<lparr>source = t, pos = 0, line = 1, col = 1\<rparr>"

definition newline :: nat where
  "newline = 10"

text \<open>One step of the scanning loops: the line and column bookkeeping for the
  character under the cursor, then the cursor moves on.\<close>

definition advance :: "Lexer \<Rightarrow> Lexer" where
  "advance l =
     (if source l ! pos l = newline
      then l\<lparr>pos := pos l + 1, line := line l + 1, col := 1\<rparr>
      else l\<lparr>pos := pos l + 1, col := col l + 1\<rparr>)"

function skip_line_comment :: "Lexer \<Rightarrow> Lexer" where
  "skip_line_comment l =
     (if pos l < length (source l) \<and> source l ! pos l \<noteq> newline
      then skip_line_comment (l\<lparr>pos := pos l + 1, col := col l + 1\<rparr>)
      else if pos l < length (source l) then l\<lparr>line := line l + 1, col := 1\<rparr>
      else l)"
  by pat_completeness auto
termination
  by (relation "measure (\<lambda>l. length (source l) - pos l)") auto

declare skip_line_comment.simps [simp del]

function skip_whitespace :: "Lexer \<Rightarrow> Lexer" where
  "skip_whitespace l =
     (if pos l < length (source l) \<and> isspace (source l ! pos l)
      then skip_whitespace (advance l)
      else l)"
  by pat_completeness auto
termination
  by (relation "measure (\<lambda>l. length (source l) - pos l)") (auto simp: advance_def)

declare skip_whitespace.simps [simp del]

function multiline_loop :: "Lexer \<Rightarrow> Lexer" where
  "multiline_loop l =
     (if pos l + 1 < length (source l)
      then (if slice (source l) (pos l) (pos l + 2) = str ''-}''
            then l\<lparr>pos := pos l + 2, col := col l + 2\<rparr>
            else multiline_loop (advance l))
      else l)"
  by pat_completeness auto
termination
  by (relation "measure (\<lambda>l. length (source l) - pos l)") (auto simp: advance_def)

declare multiline_loop.simps [simp del]

definition skip_multiline_comment :: "Lexer \<Rightarrow> Lexer" where
  "skip_multiline_comment l = multiline_loop (l\<lparr>pos := pos l + 2, col := col l + 2\<rparr>)"

text \<open>
  The scanners below return the token together with the lexer after it. Where the
  source returns \<open>None\<close> without having touched the cursor the model returns \<open>None\<close>;
  \<open>_parse_string\<close> moves the cursor while it scans and does not move it back, so its
  model returns the lexer also when there is no token.
\<close>

function scan_brackets :: "pystr \<Rightarrow> nat \<Rightarrow> int \<Rightarrow> nat \<times> int" where
  "scan_brackets t e bracket_count =
     (if e < length t
      then (if t ! e = ch CHR ''[''
            then scan_brackets t (e + 1) (bracket_count + 1)
            else if t ! e = ch CHR '']''
            then (if bracket_count - 1 = 0 then (e, bracket_count - 1)
                  else scan_brackets t (e + 1) (bracket_count - 1))
            else scan_brackets t (e + 1) bracket_count)
      else (e, bracket_count))"
  by pat_completeness auto
termination
  by (relation "measure (\<lambda>(t, e, b). length t - e)") auto

declare scan_brackets.simps [simp del]

definition operators :: "pystr list" where
  "operators = [str ''+'', str ''-'', str ''*'', str ''/'']"

definition lexer_parse_expression :: "Lexer \<Rightarrow> (Token \<times> Lexer) option" where
  "lexer_parse_expression l =
     (let start_pos = pos l;
          (e, bracket_count) = scan_brackets (source l) (pos l) 0
      in if e = length (source l) \<or> bracket_count \<noteq> 0 then None
         else (let content = split (strip (slice (source l) (start_pos + 1) e))
               in if length content \<ge> 2 \<and> hd content \<in> set operators
                  then (let v = slice (source l) start_pos (e + 1)
                        in Some (\<lparr>ttype = LBRACK, tvalue = v, tline = line l, tcol = col l\<rparr>,
                                 l\<lparr>pos := e + 1, col := col l + length v\<rparr>))
                  else None))"

text \<open>The regular expression \<open>0[xX][0-9a-fA-F]+|\d+\<close>, matched at the start of \<open>s\<close>.\<close>

definition match_number :: "pystr \<Rightarrow> pystr option" where
  "match_number s =
     (if (startswith s (str ''0x'') \<or> startswith s (str ''0X'')) \<and> takeWhile ishex (drop 2 s) \<noteq> []
      then Some (take 2 s @ takeWhile ishex (drop 2 s))
      else if takeWhile isdigit s \<noteq> [] then Some (takeWhile isdigit s)
      else None)"

definition parse_number :: "Lexer \<Rightarrow> (Token \<times> Lexer) option" where
  "parse_number l =
     (case match_number (drop (pos l) (source l)) of
        Some v \<Rightarrow>
          Some (\<lparr>ttype = (if startswith (lower v) (str ''0x'') then HEX else NUMBER),
                  tvalue = v, tline = line l, tcol = col l\<rparr>,
                l\<lparr>pos := pos l + length v, col := col l + length v\<rparr>)
      | None \<Rightarrow> None)"

definition backslash :: nat where
  "backslash = 0x5C"

definition single_quote :: nat where
  "single_quote = 0x27"

definition double_quote :: nat where
  "double_quote = 0x22"

function string_loop :: "nat \<Rightarrow> nat \<Rightarrow> nat \<Rightarrow> nat \<Rightarrow> Lexer \<Rightarrow> Token option \<times> Lexer" where
  "string_loop quote start start_line start_col l =
     (if pos l < length (source l)
      then (if source l ! pos l = quote \<and> (pos l = 0 \<or> source l ! (pos l - 1) \<noteq> backslash)
            then (Some \<lparr>ttype = STRING, tvalue = slice (source l) start (pos l + 1),
                         tline = start_line, tcol = start_col\<rparr>,
                  l\<lparr>pos := pos l + 1, col := col l + 1\<rparr>)
            else string_loop quote start start_line start_col (advance l))
      else (None, l))"
  by pat_completeness auto
termination
  by (relation "measure (\<lambda>(q, s, sl, sc, l). length (source l) - pos l)") (auto simp: advance_def)

declare string_loop.simps [simp del]

definition parse_string :: "Lexer \<Rightarrow> Token option \<times> Lexer" where
  "parse_string l =
     (let quote = source l ! pos l
      in if quote \<noteq> single_quote \<and> quote \<noteq> double_quote then (None, l)
         else string_loop quote (pos l) (line l) (col l) (l\<lparr>pos := pos l + 1, col := col l + 1\<rparr>))"

definition patterns :: "(pystr \<times> TokenType) list" where
  "patterns =
     [(str ''struct{'', STRUCT_START), (str ''(list'', LIST_START), (str ''chr('', CHR_START),
      (str '':='', DEFINE), (str '';'', SEMICOLON), (str ''='', ASSIGN), (str '','', COMMA),
      (str ''}'', STRUCT_END), (str '')'', RPAREN), (str ''true'', BOOL_TRUE),
      (str ''false'', BOOL_FALSE)]"

text \<open>The regular expression \<open>[_a-zA-Z][_a-zA-Z0-9]*\<close>, matched at the start of \<open>s\<close>.\<close>

definition match_name :: "pystr \<Rightarrow> pystr option" where
  "match_name s =
     (case s of [] \<Rightarrow> None
      | c # cs \<Rightarrow> if isalpha_us c then Some (c # takeWhile isalnum_us cs) else None)"

definition match_keyword :: "Lexer \<Rightarrow> (Token \<times> Lexer) option" where
  "match_keyword l =
     (case find (\<lambda>(pattern, tt). startswith (drop (pos l) (source l)) pattern) patterns of
        Some (pattern, tt) \<Rightarrow>
          Some (\<lparr>ttype = tt, tvalue = pattern, tline = line l, tcol = col l\<rparr>,
                l\<lparr>pos := pos l + length pattern, col := col l + length pattern\<rparr>)
      | None \<Rightarrow>
          (case match_name (drop (pos l) (source l)) of
             Some v \<Rightarrow>
               Some (\<lparr>ttype = NAME, tvalue = v, tline = line l, tcol = col l\<rparr>,
                     l\<lparr>pos := pos l + length v, col := col l + length v\<rparr>)
           | None \<Rightarrow> None))"

text \<open>
  \<open>next_token\<close>: the loop runs while the cursor is inside the text. Every pass that
  does not return a token leaves the cursor further to the right, which is why the loop
  ends.
\<close>

function next_token :: "Lexer \<Rightarrow> Token \<times> Lexer" where
  "next_token l =
     (if pos l < length (source l)
      then (if source l ! pos l = ch CHR ''#'' then next_token (skip_line_comment l)
            else if isspace (source l ! pos l) then next_token (skip_whitespace l)
            else if pos l + 1 < length (source l) \<and> slice (source l) (pos l) (pos l + 2) = str ''{-''
            then next_token (skip_multiline_comment l)
            else (case (if source l ! pos l = ch CHR ''['' then lexer_parse_expression l else None) of
                    Some expr \<Rightarrow> expr
                  | None \<Rightarrow>
                      (case match_keyword l of
                         Some keyword \<Rightarrow> keyword
                       | None \<Rightarrow>
                           (case parse_number l of
                              Some num \<Rightarrow> num
                            | None \<Rightarrow>
                                (case parse_string l of
                                   (Some string, l') \<Rightarrow> (string, l')
                                 | (None, l') \<Rightarrow>
                                     next_token (l'\<lparr>pos := pos l' + 1, col := col l' + 1\<rparr>))))))
      else (\<lparr>ttype = EOF, tvalue = [], tline = line l, tcol = col l\<rparr>, l))"
  by pat_completeness auto

section \<open>Values, errors and the parser state\<close>

text \<open>
  The values the parser builds are Python objects: \<open>int\<close>, \<open>bool\<close>, \<open>str\<close>, \<open>list\<close> and
  \<open>dict\<close>. A \<open>dict\<close> keeps its keys in the order of their first insertion, which is what
  \<open>AList.update\<close> does on an association list.
\<close>

datatype pyvalue =
    PyInt int
  | PyBool bool
  | PyStr pystr
  | PyList "pyvalue list"
  | PyDict "(pystr \<times> pyvalue) list"

type_synonym pydict = "(pystr \<times> pyvalue) list"

text \<open>
  The messages of the \<open>SyntaxError\<close>s the parser raises itself, with the line and column
  where the source gives them. \<open>ValueError\<close> is what the builtins \<open>int\<close> and \<open>chr\<close> raise,
  \<open>OverflowError\<close> is what \<open>chr\<close> raises for an argument that does not fit a machine
  integer of 32 bits, and \<open>KeyError\<close> is a failed dictionary lookup. \<open>OutOfFuel\<close> is not an
  error of the program: the recursive descent is written with a bound on its depth, and
  \<open>OutOfFuel\<close> says that the bound was too small.
\<close>

datatype syntax_error =
    Expected nat nat TokenType TokenType
  | UnexpectedValue nat nat TokenType
  | ExpectedAssign nat nat TokenType
  | BadExpression pystr
  | UnknownOperation pystr
  | ArgumentsMustBeNumeric pystr

datatype error = SyntaxError syntax_error | ValueError | OverflowError | KeyError | OutOfFuel

fun bind :: "error + 'a \<Rightarrow> ('a \<Rightarrow> error + 'b) \<Rightarrow> error + 'b" where
  "bind (Inl e) f = Inl e"
| "bind (Inr x) f = f x"

record Parser =
  lexer :: Lexer
  current_token :: Token
  constants :: pydict

definition Parser_init :: "Lexer \<Rightarrow> Parser" where
  "Parser_init l =
     (let (t, l') = next_token l in \<lparr>lexer = l', current_token = t, constants = []\<rparr>)"

text \<open>\<open>self.current_token = self.lexer.next_token()\<close>\<close>

definition read_token :: "Parser \<Rightarrow> Parser" where
  "read_token p = (let (t, l') = next_token (lexer p) in p\<lparr>lexer := l', current_token := t\<rparr>)"

definition eat :: "TokenType \<Rightarrow> Parser \<Rightarrow> error + Parser" where
  "eat token_type p =
     (if ttype (current_token p) = token_type then Inr (read_token p)
      else Inl (SyntaxError (Expected (tline (current_token p)) (tcol (current_token p))
                  token_type (ttype (current_token p)))))"

section \<open>The bracket expression evaluator\<close>

text \<open>\<open>isinstance(v, int)\<close> holds of an \<open>int\<close> and of a \<open>bool\<close>, which Python counts among
  the integers: in arithmetic \<open>True\<close> is 1 and \<open>False\<close> is 0.\<close>

fun isinstance_int :: "pyvalue \<Rightarrow> bool" where
  "isinstance_int (PyInt i) = True"
| "isinstance_int (PyBool b) = True"
| "isinstance_int v = False"

fun int_of :: "pyvalue \<Rightarrow> int" where
  "int_of (PyInt i) = i"
| "int_of (PyBool b) = (if b then 1 else 0)"
| "int_of v = 0"

text \<open>One argument of a bracket expression: a name of the constant table stands for its
  value, any other text goes to \<open>int\<close>, in base 16 when it starts with \<open>0x\<close> or \<open>0X\<close>.\<close>

definition resolve_arg :: "pydict \<Rightarrow> pystr \<Rightarrow> error + pyvalue" where
  "resolve_arg consts arg_str =
     (case map_of consts arg_str of
        Some v \<Rightarrow> Inr v
      | None \<Rightarrow>
          (case (if startswith (lower arg_str) (str ''0x'') then py_int 16 arg_str
                 else py_int 10 arg_str) of
             None \<Rightarrow> Inl ValueError
           | Some i \<Rightarrow> Inr (PyInt i)))"

definition ops :: "int \<Rightarrow> int \<Rightarrow> (pystr \<times> int) list" where
  "ops arg1 arg2 =
     [(str ''+'', arg1 + arg2), (str ''-'', arg1 - arg2), (str ''*'', arg1 * arg2),
      (str ''/'', if arg2 \<noteq> 0 then arg1 div arg2 else 0)]"

definition eval_expression :: "pydict \<Rightarrow> pystr \<Rightarrow> error + pyvalue" where
  "eval_expression consts expr_str =
     (let content = split (strip (slice_inner expr_str))
      in if length content < 2 then Inl (SyntaxError (BadExpression expr_str))
         else if content ! 0 \<notin> set operators
         then Inl (SyntaxError (UnknownOperation (content ! 0)))
         else bind (resolve_arg consts (strip (content ! 1))) (\<lambda>arg1.
           if length content = 2 then Inr arg1
           else bind (resolve_arg consts (strip (content ! 2))) (\<lambda>arg2.
             if \<not> isinstance_int arg1 \<or> \<not> isinstance_int arg2
             then Inl (SyntaxError (ArgumentsMustBeNumeric expr_str))
             else (case map_of (ops (int_of arg1) (int_of arg2)) (content ! 0) of
                     Some r \<Rightarrow> Inr (PyInt r)
                   | None \<Rightarrow> Inl KeyError))))"

definition parse_expression :: "Parser \<Rightarrow> error + (pyvalue \<times> Parser)" where
  "parse_expression p =
     (let expr_str = tvalue (current_token p)
      in bind (eat LBRACK p) (\<lambda>p1.
           bind (eval_expression (constants p1) expr_str) (\<lambda>v. Inr (v, p1))))"

section \<open>The recursive descent\<close>

text \<open>
  \<open>chr(arg) if isinstance(arg, int) else '?'\<close>. The builtin \<open>chr\<close> takes its argument as a
  signed machine integer of 32 bits and raises \<open>OverflowError\<close> for an integer that does
  not fit; for one that fits and is no code point, which are the integers from 0 to
  \<open>0x10FFFF\<close>, it raises \<open>ValueError\<close>.
\<close>

fun chr_or_question :: "pyvalue \<Rightarrow> error + pyvalue" where
  "chr_or_question (PyInt i) =
     (if i < - (2 ^ 31) \<or> 2 ^ 31 \<le> i then Inl OverflowError
      else if 0 \<le> i \<and> i < 0x110000 then Inr (PyStr [nat i])
      else Inl ValueError)"
| "chr_or_question (PyBool b) = Inr (PyStr [if b then 1 else 0])"
| "chr_or_question v = Inr (PyStr (str ''?''))"

definition unescape :: "pystr \<Rightarrow> pystr" where
  "unescape s =
     replace2 backslash single_quote [single_quote]
       (replace2 backslash double_quote [double_quote] s)"

definition eat_if :: "TokenType \<Rightarrow> Parser \<Rightarrow> error + Parser" where
  \<comment> \<open>\<open>if self.current_token.type == t: self.eat(t)\<close>\<close>
  "eat_if token_type p = (if ttype (current_token p) = token_type then eat token_type p else Inr p)"

text \<open>The parser that \<open>eat_if\<close> returns: one token further when the current token has
  the given type, the same parser otherwise.\<close>

definition skip_optional :: "TokenType \<Rightarrow> Parser \<Rightarrow> Parser" where
  "skip_optional token_type p = (if ttype (current_token p) = token_type then read_token p else p)"

fun parse_value :: "nat \<Rightarrow> Parser \<Rightarrow> error + (pyvalue \<times> Parser)"
  and parse_list :: "nat \<Rightarrow> Parser \<Rightarrow> error + (pyvalue \<times> Parser)"
  and parse_list_loop :: "nat \<Rightarrow> Parser \<Rightarrow> pyvalue list \<Rightarrow> error + (pyvalue list \<times> Parser)"
  and parse_struct :: "nat \<Rightarrow> Parser \<Rightarrow> error + (pyvalue \<times> Parser)"
  and parse_struct_loop :: "nat \<Rightarrow> Parser \<Rightarrow> pydict \<Rightarrow> error + (pydict \<times> Parser)"
  and parse_chr :: "nat \<Rightarrow> Parser \<Rightarrow> error + (pyvalue \<times> Parser)"
where
  "parse_value 0 p = Inl OutOfFuel"
| "parse_value (Suc n) p =
     (let token = current_token p
      in if ttype token = NUMBER \<or> ttype token = HEX
         then (case (if ttype token = HEX then py_int 16 (tvalue token)
                     else py_int 10 (tvalue token)) of
                 None \<Rightarrow> Inl ValueError
               | Some i \<Rightarrow> bind (eat (ttype token) p) (\<lambda>p1. Inr (PyInt i, p1)))
         else if ttype token = STRING
         then bind (eat (ttype token) p)
                (\<lambda>p1. Inr (PyStr (unescape (slice_inner (tvalue token))), p1))
         else if ttype token = BOOL_TRUE
         then bind (eat BOOL_TRUE p) (\<lambda>p1. Inr (PyBool True, p1))
         else if ttype token = BOOL_FALSE
         then bind (eat BOOL_FALSE p) (\<lambda>p1. Inr (PyBool False, p1))
         else if ttype token = NAME
         then (case map_of (constants p) (tvalue token) of
                 Some v \<Rightarrow> bind (eat NAME p) (\<lambda>p1. Inr (v, p1))
               | None \<Rightarrow> bind (eat NAME p) (\<lambda>p1. Inr (PyStr (tvalue token), p1)))
         else if ttype token = LIST_START then parse_list n p
         else if ttype token = STRUCT_START then parse_struct n p
         else if ttype token = CHR_START then parse_chr n p
         else if ttype token = LBRACK then parse_expression p
         else Inl (SyntaxError (UnexpectedValue (tline token) (tcol token) (ttype token))))"
| "parse_list n p =
     bind (eat LIST_START p) (\<lambda>p1.
       bind (parse_list_loop n p1 []) (\<lambda>(result, p2).
         bind (eat RPAREN p2) (\<lambda>p3. Inr (PyList result, p3))))"
| "parse_list_loop 0 p result = Inl OutOfFuel"
| "parse_list_loop (Suc n) p result =
     (if ttype (current_token p) \<noteq> RPAREN \<and> ttype (current_token p) \<noteq> EOF
      then bind (parse_value n p) (\<lambda>(v, p1).
             bind (eat_if COMMA p1) (\<lambda>p2. parse_list_loop n p2 (result @ [v])))
      else Inr (result, p))"
| "parse_struct n p =
     bind (eat STRUCT_START p) (\<lambda>p1.
       bind (parse_struct_loop n p1 []) (\<lambda>(result, p2).
         bind (eat STRUCT_END p2) (\<lambda>p3. Inr (PyDict result, p3))))"
| "parse_struct_loop 0 p result = Inl OutOfFuel"
| "parse_struct_loop (Suc n) p result =
     (if ttype (current_token p) \<noteq> EOF \<and> ttype (current_token p) \<noteq> STRUCT_END
      then (if ttype (current_token p) \<noteq> NAME
            then parse_struct_loop n (read_token p) result
            else (let name = tvalue (current_token p)
                  in bind (eat NAME p) (\<lambda>p1.
                       if ttype (current_token p1) \<noteq> ASSIGN
                       then Inl (SyntaxError (ExpectedAssign (tline (current_token p1))
                                   (tcol (current_token p1)) (ttype (current_token p1))))
                       else bind (eat ASSIGN p1) (\<lambda>p2.
                              bind (parse_value n p2) (\<lambda>(v, p3).
                                bind (eat_if COMMA p3) (\<lambda>p4.
                                  parse_struct_loop n p4 (AList.update name v result)))))))
      else Inr (result, p))"
| "parse_chr n p =
     bind (eat CHR_START p) (\<lambda>p1.
       bind (parse_value n p1) (\<lambda>(arg, p2).
         bind (eat RPAREN p2) (\<lambda>p3.
           bind (chr_or_question arg) (\<lambda>v. Inr (v, p3)))))"

text \<open>
  The elements of a list literal as the loop of \<open>_parse_list\<close> meets them:
  \<open>list_items n p vs p'\<close> says that from the parser \<open>p\<close> the values \<open>vs\<close> are parsed one after
  the other, none of them starting at a closing parenthesis or at the end of input and
  each of them followed by a comma or by none, and that \<open>p'\<close> is the parser after the
  last of them.
\<close>

fun list_items :: "nat \<Rightarrow> Parser \<Rightarrow> pyvalue list \<Rightarrow> Parser \<Rightarrow> bool" where
  "list_items n p [] p' = (p' = p)"
| "list_items n p (v # vs) p' =
     (ttype (current_token p) \<noteq> RPAREN \<and> ttype (current_token p) \<noteq> EOF \<and>
      (case parse_value n p of
         Inl e \<Rightarrow> False
       | Inr (v', p1) \<Rightarrow> v' = v \<and> list_items n (skip_optional COMMA p1) vs p'))"

section \<open>Top level statements\<close>

definition bind_name :: "pystr \<Rightarrow> pyvalue \<Rightarrow> Parser \<Rightarrow> Parser" where
  \<comment> \<open>\<open>self.constants[name] = value\<close>\<close>
  "bind_name name v p = p\<lparr>constants := AList.update name v (constants p)\<rparr>"

text \<open>One pass of the loop of \<open>parse\<close>, entered with a current token other than \<open>EOF\<close>.\<close>

definition parse_statement :: "nat \<Rightarrow> Parser \<Rightarrow> pydict \<Rightarrow> error + (pydict \<times> Parser)" where
  "parse_statement n p result =
     (if ttype (current_token p) = SEMICOLON
      then bind (eat SEMICOLON p) (\<lambda>p1. Inr (result, p1))
      else if ttype (current_token p) = NAME
      then (let name = tvalue (current_token p)
            in bind (eat NAME p) (\<lambda>p1.
                 if ttype (current_token p1) = DEFINE
                 then bind (eat DEFINE p1) (\<lambda>p2.
                        bind (parse_value n p2) (\<lambda>(v, p3).
                          bind (eat_if SEMICOLON (bind_name name v p3)) (\<lambda>p4.
                            Inr (AList.update name v result, p4))))
                 else if ttype (current_token p1) = ASSIGN
                 then bind (eat ASSIGN p1) (\<lambda>p2.
                        bind (parse_value n p2) (\<lambda>(v, p3).
                          bind (eat_if SEMICOLON p3) (\<lambda>p4.
                            Inr (AList.update name v result, p4))))
                 else if ttype (current_token p1) = STRUCT_START
                 then bind (parse_struct n p1) (\<lambda>(v, p2). Inr (AList.update name v result, p2))
                 else Inr (AList.update name (PyStr name) result, p1)))
      else bind (parse_value n p) (\<lambda>(v, p1). Inr (AList.update (str ''_value'') v result, p1)))"

fun parse_loop :: "nat \<Rightarrow> Parser \<Rightarrow> pydict \<Rightarrow> error + (pydict \<times> Parser)" where
  "parse_loop 0 p result = Inl OutOfFuel"
| "parse_loop (Suc n) p result =
     (if ttype (current_token p) \<noteq> EOF
      then bind (parse_statement n p result) (\<lambda>(result1, p1). parse_loop n p1 result1)
      else Inr (result, p))"




text \<open>\<open>Parser(Lexer(text)).parse()\<close>, the document alone.\<close>

definition parse :: "nat \<Rightarrow> pystr \<Rightarrow> error + pydict" where
  "parse n t = bind (parse_loop n (Parser_init (Lexer_init t)) []) (\<lambda>(result, p). Inr result)"

text \<open>
  The order of results in the bound: a run that stopped at the bound is below every
  result, any other result is only below itself.
\<close>

definition fuel_le :: "error + 'a \<Rightarrow> error + 'a \<Rightarrow> bool" where
  "fuel_le r r' = (if r = Inl OutOfFuel then True else r' = r)"

section \<open>The lexer always returns\<close>

text \<open>
  Every scanner leaves the text alone and never moves the cursor to the left; the ones
  that \<open>next_token\<close> calls before it tries again move it to the right. This is the
  termination argument of \<open>next_token\<close>.
\<close>

lemma source_skip_line_comment [simp]: "source (skip_line_comment l) = source l"
  by (induction l rule: skip_line_comment.induct) (subst skip_line_comment.simps, simp)

lemma pos_skip_line_comment: "pos l \<le> pos (skip_line_comment l)"
proof (induction l rule: skip_line_comment.induct)
  case (1 l)
  show ?case
  proof (cases "pos l < length (source l) \<and> source l ! pos l \<noteq> newline")
    case True
    with 1 [OF True] show ?thesis by (subst skip_line_comment.simps) simp
  next
    case False
    then show ?thesis by (subst skip_line_comment.simps) auto
  qed
qed

lemma pos_skip_line_comment_less:
  "pos l < length (source l) \<Longrightarrow> source l ! pos l \<noteq> newline \<Longrightarrow> pos l < pos (skip_line_comment l)"
  using pos_skip_line_comment [of "l\<lparr>pos := pos l + 1, col := col l + 1\<rparr>"]
  by (subst skip_line_comment.simps) simp

lemma source_advance [simp]: "source (advance l) = source l"
  by (simp add: advance_def)

lemma pos_advance [simp]: "pos (advance l) = pos l + 1"
  by (simp add: advance_def)

lemma source_skip_whitespace [simp]: "source (skip_whitespace l) = source l"
  by (induction l rule: skip_whitespace.induct) (subst skip_whitespace.simps, simp)

lemma pos_skip_whitespace: "pos l \<le> pos (skip_whitespace l)"
proof (induction l rule: skip_whitespace.induct)
  case (1 l)
  show ?case
  proof (cases "pos l < length (source l) \<and> isspace (source l ! pos l)")
    case True
    with 1 [OF True] show ?thesis by (subst skip_whitespace.simps) simp
  next
    case False
    then show ?thesis by (subst skip_whitespace.simps) auto
  qed
qed

lemma pos_skip_whitespace_less:
  "pos l < length (source l) \<Longrightarrow> isspace (source l ! pos l) \<Longrightarrow> pos l < pos (skip_whitespace l)"
  using pos_skip_whitespace [of "advance l"]
  by (subst skip_whitespace.simps) simp

lemma source_multiline_loop [simp]: "source (multiline_loop l) = source l"
  by (induction l rule: multiline_loop.induct) (subst multiline_loop.simps, simp)

lemma pos_multiline_loop: "pos l \<le> pos (multiline_loop l)"
proof (induction l rule: multiline_loop.induct)
  case (1 l)
  show ?case
  proof (cases "pos l + 1 < length (source l) \<and> slice (source l) (pos l) (pos l + 2) \<noteq> str ''-}''")
    case True
    with 1 show ?thesis by (subst multiline_loop.simps) simp
  next
    case False
    then show ?thesis by (subst multiline_loop.simps) auto
  qed
qed

lemma source_skip_multiline_comment [simp]: "source (skip_multiline_comment l) = source l"
  by (simp add: skip_multiline_comment_def)

lemma pos_skip_multiline_comment_less: "pos l < pos (skip_multiline_comment l)"
  using pos_multiline_loop [of "l\<lparr>pos := pos l + 2, col := col l + 2\<rparr>"]
  by (simp add: skip_multiline_comment_def)

lemma source_string_loop [simp]: "source (snd (string_loop q s sl sc l)) = source l"
  by (induction q s sl sc l rule: string_loop.induct) (subst string_loop.simps, simp)

lemma pos_string_loop: "pos l \<le> pos (snd (string_loop q s sl sc l))"
proof (induction q s sl sc l rule: string_loop.induct)
  case (1 q s sl sc l)
  show ?case
  proof (cases "pos l < length (source l) \<and>
      \<not> (source l ! pos l = q \<and> (pos l = 0 \<or> source l ! (pos l - 1) \<noteq> backslash))")
    case True
    with 1 have "pos (advance l) \<le> pos (snd (string_loop q s sl sc (advance l)))" by blast
    with True show ?thesis by (subst string_loop.simps) auto
  next
    case False
    then show ?thesis by (subst string_loop.simps) auto
  qed
qed

lemma source_parse_string [simp]: "source (snd (parse_string l)) = source l"
  by (simp add: parse_string_def Let_def)

lemma pos_parse_string: "pos l \<le> pos (snd (parse_string l))"
  using pos_string_loop [of "l\<lparr>pos := pos l + 1, col := col l + 1\<rparr>"]
  by (simp add: parse_string_def Let_def) (metis Suc_leD)

termination next_token
  apply (relation "measure (\<lambda>l. Suc (length (source l)) - pos l)")
  apply simp
  subgoal for l using pos_skip_line_comment_less [of l] by (simp add: newline_def)
  subgoal for l using pos_skip_whitespace_less [of l] by simp
  subgoal for l using pos_skip_multiline_comment_less [of l] by auto
  subgoal for l
    using pos_parse_string [of l] source_parse_string [of l]
    by (cases "parse_string l") auto
  done

declare next_token.simps [simp del]

section \<open>Running the model on a concrete text\<close>

text \<open>
  The equations below are what the simplifier needs to run the lexer and the parser on
  a given text. The rule \<open>bind_weak_cong\<close> makes it run the first computation of a
  \<open>bind\<close> before it looks at the second.
\<close>

lemma bind_weak_cong: "m = m' \<Longrightarrow> bind m f = bind m' f"
  by simp

lemmas parse_value_numeral =
  parse_value.simps(2) [of "pred_numeral k" for k, folded numeral_eq_Suc]

lemmas parse_list_loop_numeral =
  parse_list_loop.simps(2) [of "pred_numeral k" for k, folded numeral_eq_Suc]

lemmas parse_struct_loop_numeral =
  parse_struct_loop.simps(2) [of "pred_numeral k" for k, folded numeral_eq_Suc]

lemmas parse_loop_numeral =
  parse_loop.simps(2) [of "pred_numeral k" for k, folded numeral_eq_Suc]

lemmas lex_simps =
  next_token.simps skip_line_comment.simps skip_whitespace.simps multiline_loop.simps
  skip_multiline_comment_def scan_brackets.simps lexer_parse_expression_def match_number_def
  parse_number_def string_loop.simps parse_string_def patterns_def match_name_def
  match_keyword_def str_def Lexer_init_def advance_def newline_def slice_def startswith_def
  isspace_def isdigit_def ishex_def isalpha_us_def isalnum_us_def strip_def split_def
  operators_def lower_def backslash_def single_quote_def double_quote_def Let_def

lemmas parse_simps =
  parse_value_numeral parse_list_loop_numeral parse_struct_loop_numeral parse_loop_numeral
  parse_def Parser_init_def read_token_def eat_def eat_if_def skip_optional_def parse_statement_def
  bind_name_def parse_expression_def eval_expression_def resolve_arg_def ops_def py_int_def
  digits_value_def digit_value_def slice_inner_def unescape_def

section \<open>Properties of the parser\<close>

lemma bind_eq_Inr: "(bind m f = Inr y) = (\<exists>x. m = Inr x \<and> f x = Inr y)"
  by (cases m) auto

lemma constants_read_token [simp]: "constants (read_token p) = constants p"
  by (simp add: read_token_def split: prod.split)

lemma eat_Inr: "eat t p = Inr p' \<Longrightarrow> p' = read_token p \<and> ttype (current_token p) = t"
  by (auto simp: eat_def split: if_splits)

lemma eat_same [simp]: "ttype (current_token p) = t \<Longrightarrow> eat t p = Inr (read_token p)"
  by (simp add: eat_def)

lemma eat_if_skip_optional [simp]: "eat_if t p = Inr (skip_optional t p)"
  by (simp add: eat_if_def skip_optional_def)

lemma constants_skip_optional [simp]: "constants (skip_optional t p) = constants p"
  by (simp add: skip_optional_def)

lemma constants_parse_expression:
  "parse_expression p = Inr (v, p') \<Longrightarrow> constants p' = constants p"
  by (auto simp: parse_expression_def bind_eq_Inr Let_def dest!: eat_Inr)

text \<open>Only a definition statement writes the constant table: parsing a value leaves
  it as it was.\<close>

lemma constants_preserved_aux:
  "(\<forall>p v p'. parse_value n p = Inr (v, p') \<longrightarrow> constants p' = constants p) \<and>
   (\<forall>p r r' p'. parse_list_loop n p r = Inr (r', p') \<longrightarrow> constants p' = constants p) \<and>
   (\<forall>p r r' p'. parse_struct_loop n p r = Inr (r', p') \<longrightarrow> constants p' = constants p)"
proof (induction n)
  case 0
  show ?case by simp
next
  case (Suc n)
  then have V: "\<And>p v p'. parse_value n p = Inr (v, p') \<Longrightarrow> constants p' = constants p"
    and L: "\<And>p r r' p'. parse_list_loop n p r = Inr (r', p') \<Longrightarrow> constants p' = constants p"
    and S: "\<And>p r r' p'. parse_struct_loop n p r = Inr (r', p') \<Longrightarrow> constants p' = constants p"
    by blast+
  have 1: "constants p' = constants p" if "parse_value (Suc n) p = Inr (v, p')" for p v p'
    using that
    by (auto simp: bind_eq_Inr Let_def split: if_splits option.splits
        dest!: eat_Inr dest: L S V constants_parse_expression)
  have 2: "constants p' = constants p" if "parse_list_loop (Suc n) p r = Inr (r', p')" for p r r' p'
    using that
    by (auto simp: bind_eq_Inr split: if_splits dest!: V L)
  have 3: "constants p' = constants p" if "parse_struct_loop (Suc n) p r = Inr (r', p')" for p r r' p'
    using that
    by (auto simp: bind_eq_Inr Let_def split: if_splits dest!: eat_Inr V S)
  from 1 2 3 show ?case by blast
qed

lemma constants_parse_value: "parse_value n p = Inr (v, p') \<Longrightarrow> constants p' = constants p"
  using constants_preserved_aux [of n] by blast

lemma parse_struct_loop_stops:
  "parse_struct_loop n p r = Inr (r', p') \<Longrightarrow>
     ttype (current_token p') = EOF \<or> ttype (current_token p') = STRUCT_END"
proof (induction n arbitrary: p r)
  case 0
  then show ?case by simp
next
  case (Suc n)
  then show ?case
    by (auto simp: bind_eq_Inr Let_def split: if_splits)
qed

subsection \<open>A larger bound changes no result\<close>

lemma fuel_le_refl [simp]: "fuel_le r r"
  by (simp add: fuel_le_def)

lemma fuel_le_bottom [simp]: "fuel_le (Inl OutOfFuel) r"
  by (simp add: fuel_le_def)

lemma fuel_le_trans: "fuel_le a b \<Longrightarrow> fuel_le b c \<Longrightarrow> fuel_le a c"
  by (auto simp: fuel_le_def split: if_splits)

lemma fuel_le_bind:
  "fuel_le m m' \<Longrightarrow> (\<And>x. m = Inr x \<Longrightarrow> fuel_le (f x) (f' x)) \<Longrightarrow> fuel_le (bind m f) (bind m' f')"
  by (cases m) (auto simp: fuel_le_def split: if_splits)

lemma fuel_le_bind_prod:
  "fuel_le m m' \<Longrightarrow> (\<And>a b. m = Inr (a, b) \<Longrightarrow> fuel_le (f a b) (f' a b)) \<Longrightarrow>
     fuel_le (bind m (\<lambda>(a, b). f a b)) (bind m' (\<lambda>(a, b). f' a b))"
  by (rule fuel_le_bind) auto

lemma fuel_le_if:
  "(c \<Longrightarrow> fuel_le a a') \<Longrightarrow> (\<not> c \<Longrightarrow> fuel_le b b') \<Longrightarrow>
     fuel_le (if c then a else b) (if c then a' else b')"
  by simp

lemma fuel_mono_aux:
  "(\<forall>p. fuel_le (parse_value n p) (parse_value (Suc n) p)) \<and>
   (\<forall>p r. fuel_le (parse_list_loop n p r) (parse_list_loop (Suc n) p r)) \<and>
   (\<forall>p r. fuel_le (parse_struct_loop n p r) (parse_struct_loop (Suc n) p r))"
proof (induction n)
  case 0
  show ?case by simp
next
  case (Suc n)
  then have V: "\<And>p. fuel_le (parse_value n p) (parse_value (Suc n) p)"
    and L: "\<And>p r. fuel_le (parse_list_loop n p r) (parse_list_loop (Suc n) p r)"
    and S: "\<And>p r. fuel_le (parse_struct_loop n p r) (parse_struct_loop (Suc n) p r)"
    by blast+
  have PL: "fuel_le (parse_list n p) (parse_list (Suc n) p)" for p
    by (simp del: parse_list_loop.simps) (intro fuel_le_refl fuel_le_bind_prod fuel_le_bind L)
  have PS: "fuel_le (parse_struct n p) (parse_struct (Suc n) p)" for p
    by (simp del: parse_struct_loop.simps) (intro fuel_le_refl fuel_le_bind_prod fuel_le_bind S)
  have PC: "fuel_le (parse_chr n p) (parse_chr (Suc n) p)" for p
    by (simp del: parse_value.simps) (intro fuel_le_refl fuel_le_bind_prod fuel_le_bind V)
  have 1: "fuel_le (parse_value (Suc n) p) (parse_value (Suc (Suc n)) p)" for p
    by (subst parse_value.simps(2) [of n], subst parse_value.simps(2) [of "Suc n"],
        simp only: Let_def, intro fuel_le_refl fuel_le_if PL PS PC)
  have 2: "fuel_le (parse_list_loop (Suc n) p r) (parse_list_loop (Suc (Suc n)) p r)" for p r
    by (subst parse_list_loop.simps(2) [of n], subst parse_list_loop.simps(2) [of "Suc n"],
        intro fuel_le_refl fuel_le_if fuel_le_bind_prod fuel_le_bind V L)
  have 3: "fuel_le (parse_struct_loop (Suc n) p r) (parse_struct_loop (Suc (Suc n)) p r)" for p r
    by (subst parse_struct_loop.simps(2) [of n], subst parse_struct_loop.simps(2) [of "Suc n"],
        simp only: Let_def, intro fuel_le_refl fuel_le_if fuel_le_bind_prod fuel_le_bind V S)
  from 1 2 3 show ?case by blast
qed

lemma parse_value_fuel_mono: "fuel_le (parse_value n p) (parse_value (n + k) p)"
proof (induction k)
  case 0
  show ?case by simp
next
  case (Suc k)
  from fuel_mono_aux [of "n + k"] have "fuel_le (parse_value (n + k) p) (parse_value (n + Suc k) p)"
    by simp
  with Suc show ?case by (rule fuel_le_trans)
qed

lemma parse_value_more_fuel:
  "parse_value n p = Inr r \<Longrightarrow> n \<le> m \<Longrightarrow> parse_value m p = Inr r"
  using parse_value_fuel_mono [of n p "m - n"] by (simp add: fuel_le_def)

subsection \<open>Statements that follow one another\<close>











subsection \<open>The loop of a list literal\<close>

lemma list_items_loop:
  "list_items n p vs p' \<Longrightarrow>
   ttype (current_token p') = RPAREN \<or> ttype (current_token p') = EOF \<Longrightarrow>
   n + length vs < m \<Longrightarrow>
   parse_list_loop m p result = Inr (result @ vs, p')"
proof (induction vs arbitrary: p result m)
  case Nil
  then obtain m' where "m = Suc m'" by (cases m) auto
  with Nil show ?case by auto
next
  case (Cons v vs)
  from Cons.prems(3) obtain m' where m: "m = Suc m'" and m': "n + length vs < m'"
    by (cases m) auto
  from Cons.prems(1) obtain p1 where cur: "ttype (current_token p) \<noteq> RPAREN" "ttype (current_token p) \<noteq> EOF"
    and v: "parse_value n p = Inr (v, p1)"
    and rest: "list_items n (skip_optional COMMA p1) vs p'"
    by (auto split: sum.splits)
  from parse_value_more_fuel [OF v, of m'] m' have "parse_value m' p = Inr (v, p1)" by simp
  with cur m have "parse_list_loop m p result = parse_list_loop m' (skip_optional COMMA p1) (result @ [v])"
    by simp
  also from Cons.IH [OF rest Cons.prems(2) m'] have "\<dots> = Inr ((result @ [v]) @ vs, p')" .
  finally show ?case by simp
qed

section \<open>The claims\<close>

subsection \<open>The bracket expression evaluator\<close>

text \<open>
  C1. The specification says that a bracket expression always evaluates to one Integer,
  also in the form with a single operand, where the resolved operand is returned
  as it is, and also when the operand is a name of the constant table. The evaluator
  checks that its operands are integers only after the early return of the form with one
  operand, so that form hands back whatever the constant is bound to. Here the
  constant \<open>s\<close> is bound to the text \<open>hi\<close>, and \<open>[+ s]\<close> evaluates to that text.
\<close>

theorem single_operand_returns_text:
  "parse 20 (str ''s := \"hi\"; y := [+ s]'') =
     Inr [(str ''s'', PyStr (str ''hi'')), (str ''y'', PyStr (str ''hi''))]"
  by (simp add: lex_simps parse_simps cong: bind_weak_cong)

text \<open>
  C2. In a bracket expression with two operands that resolve to the integers \<open>a\<close> and
  \<open>b\<close>, the operator \<open>+\<close> gives \<open>a + b\<close>, \<open>-\<close> gives \<open>a - b\<close>, \<open>*\<close> gives \<open>a * b\<close> and \<open>/\<close>
  gives the quotient rounded towards minus infinity, the floor of \<open>a / b\<close>, except
  that a divisor 0 gives 0; no error is raised. The parser reads
  the expression as one token and goes on with the token after it.
\<close>

theorem bracket_arithmetic:
  assumes "ttype (current_token p) = LBRACK"
    and "split (strip (slice_inner (tvalue (current_token p)))) = oper # s1 # s2 # rest"
    and "oper \<in> set operators"
    and "resolve_arg (constants p) (strip s1) = Inr (PyInt a)"
    and "resolve_arg (constants p) (strip s2) = Inr (PyInt b)"
  shows "parse_value (Suc n) p =
     Inr (PyInt (if oper = str ''+'' then a + b
                 else if oper = str ''-'' then a - b
                 else if oper = str ''*'' then a * b
                 else if b = 0 then 0 else \<lfloor>real_of_int a / real_of_int b\<rfloor>),
          read_token p)"
proof -
  have ev: "eval_expression (constants p) (tvalue (current_token p)) =
      (case map_of (ops a b) oper of Some r \<Rightarrow> Inr (PyInt r) | None \<Rightarrow> Inl KeyError)"
    using assms(2-5) by (simp add: eval_expression_def)
  have "map_of (ops a b) oper =
      Some (if oper = str ''+'' then a + b
            else if oper = str ''-'' then a - b
            else if oper = str ''*'' then a * b
            else if b = 0 then 0 else \<lfloor>real_of_int a / real_of_int b\<rfloor>)"
    using assms(3) by (auto simp: ops_def operators_def str_def floor_divide_of_int_eq)
  with ev assms(1) show ?thesis
    by (simp add: parse_expression_def)
qed

theorem bracket_arithmetic_witness:
  "ttype (current_token (Parser_init (Lexer_init (str ''[/ -7 2]'')))) = LBRACK
   \<and> split (strip (slice_inner (tvalue (current_token (Parser_init (Lexer_init (str ''[/ -7 2]'')))))))
       = [str ''/'', str ''-7'', str ''2'']
   \<and> resolve_arg [] (str ''-7'') = Inr (PyInt (- 7))
   \<and> resolve_arg [] (str ''2'') = Inr (PyInt 2)
   \<and> parse_value (Suc 0) (Parser_init (Lexer_init (str ''[/ -7 2]''))) =
       Inr (PyInt (- 4), read_token (Parser_init (Lexer_init (str ''[/ -7 2]''))))"
  using bracket_arithmetic [of "Parser_init (Lexer_init (str ''[/ -7 2]''))"
      "str ''/''" "str ''-7''" "str ''2''" "[]" "- 7" 2 0]
  by (simp add: lex_simps parse_simps cong: bind_weak_cong)

text \<open>
  C3. The specification says that an operand which does not resolve to an integer
  always ends the parse with the syntax error that the arguments must be numeric, and
  with no other failure. The check that raises this error comes after both
  operands went through \<open>int\<close>, and \<open>int\<close> raises a \<open>ValueError\<close> of its own for a text
  that is no number: \<open>abc\<close> below is no constant and no number.
\<close>

theorem non_numeric_operand_raises_ValueError:
  "parse 20 (str ''y := [+ abc 1]'') = Inl ValueError"
  by (simp add: lex_simps parse_simps cong: bind_weak_cong)

subsection \<open>The lexer\<close>

text \<open>
  C5. The specification says that after a quote which opens a string that is never
  closed the lexer skips the quote alone and goes on with the character after it.
  \<open>_parse_string\<close> has moved the cursor to the end of the text when it gives up, and
  \<open>next_token\<close> skips one character from there: the text after the quote is lost, and
  the next token is the end of input.
\<close>

theorem unterminated_string_drops_rest:
  "next_token (Lexer_init (single_quote # str ''abc x = 1'')) =
     (\<lparr>ttype = EOF, tvalue = [], tline = 1, tcol = 12\<rparr>,
      \<lparr>source = single_quote # str ''abc x = 1'', pos = 11, line = 1, col = 12\<rparr>)"
  by (simp add: lex_simps)

text \<open>
  C6. The specification says that no token comes from the characters of a block
  comment that is not closed. The loop of \<open>_skip_multiline_comment\<close> runs while two
  characters are left, so it stops one character before the end of the text, and
  \<open>next_token\<close> reads that last character: here it is the name \<open>a\<close>.
\<close>

theorem unterminated_comment_last_character:
  "next_token (Lexer_init (str ''{- a'')) =
     (\<lparr>ttype = NAME, tvalue = str ''a'', tline = 1, tcol = 4\<rparr>,
      \<lparr>source = str ''{- a'', pos = 4, line = 1, col = 5\<rparr>)"
  by (simp add: lex_simps)

subsection \<open>Constants and statements\<close>

text \<open>
  C7. A statement \<open>name := value\<close> binds \<open>name\<close> to the value in the constant table and in
  the document. A statement \<open>name = value\<close> binds it in the document and leaves the
  constant table as it was before the statement. After the value one semicolon is
  consumed when there is one.
\<close>

theorem define_and_assign:
  assumes "ttype (current_token p) = NAME"
    and "parse_value n (read_token (read_token p)) = Inr (v, p3)"
  shows "(ttype (current_token (read_token p)) = DEFINE \<longrightarrow>
            parse_statement n p result =
              Inr (AList.update (tvalue (current_token p)) v result,
                   skip_optional SEMICOLON (bind_name (tvalue (current_token p)) v p3))
            \<and> constants (skip_optional SEMICOLON (bind_name (tvalue (current_token p)) v p3)) =
                AList.update (tvalue (current_token p)) v (constants p))
       \<and> (ttype (current_token (read_token p)) = ASSIGN \<longrightarrow>
            parse_statement n p result =
              Inr (AList.update (tvalue (current_token p)) v result, skip_optional SEMICOLON p3)
            \<and> constants (skip_optional SEMICOLON p3) = constants p)"
  using assms constants_parse_value [OF assms(2)]
  by (auto simp: parse_statement_def bind_name_def Let_def)

theorem define_and_assign_witness:
  "parse_statement 1 (Parser_init (Lexer_init (str ''x := 5; y''))) [] =
     Inr ([(str ''x'', PyInt 5)],
          skip_optional SEMICOLON (bind_name (str ''x'') (PyInt 5)
            (read_token (read_token (read_token (Parser_init (Lexer_init (str ''x := 5; y''))))))))
   \<and> constants (skip_optional SEMICOLON (bind_name (str ''x'') (PyInt 5)
            (read_token (read_token (read_token (Parser_init (Lexer_init (str ''x := 5; y''))))))))
       = [(str ''x'', PyInt 5)]
   \<and> parse_statement 1 (Parser_init (Lexer_init (str ''x = 5; y''))) [] =
     Inr ([(str ''x'', PyInt 5)],
          skip_optional SEMICOLON
            (read_token (read_token (read_token (Parser_init (Lexer_init (str ''x = 5; y'')))))))
   \<and> constants (skip_optional SEMICOLON
            (read_token (read_token (read_token (Parser_init (Lexer_init (str ''x = 5; y''))))))) = []"
proof -
  let ?p = "Parser_init (Lexer_init (str ''x := 5; y''))"
  let ?q = "Parser_init (Lexer_init (str ''x = 5; y''))"
  have p0: "current_token ?p = \<lparr>ttype = NAME, tvalue = str ''x'', tline = 1, tcol = 1\<rparr>"
    and cp: "constants ?p = []"
    by (simp_all add: lex_simps parse_simps)
  have p1: "ttype (current_token (read_token ?p)) = DEFINE"
    by (simp add: lex_simps parse_simps)
  have p2: "parse_value 1 (read_token (read_token ?p)) =
      Inr (PyInt 5, read_token (read_token (read_token ?p)))"
    by (simp add: lex_simps parse_simps cong: bind_weak_cong)
  have q0: "current_token ?q = \<lparr>ttype = NAME, tvalue = str ''x'', tline = 1, tcol = 1\<rparr>"
    and cq: "constants ?q = []"
    by (simp_all add: lex_simps parse_simps)
  have q1: "ttype (current_token (read_token ?q)) = ASSIGN"
    by (simp add: lex_simps parse_simps)
  have q2: "parse_value 1 (read_token (read_token ?q)) =
      Inr (PyInt 5, read_token (read_token (read_token ?q)))"
    by (simp add: lex_simps parse_simps cong: bind_weak_cong)
  have np: "ttype (current_token ?p) = NAME" and nq: "ttype (current_token ?q) = NAME"
    by (simp_all add: p0 q0)
  from define_and_assign [OF np p2, of "[]"] p1
  have a: "parse_statement 1 ?p [] =
      Inr (AList.update (tvalue (current_token ?p)) (PyInt 5) [],
           skip_optional SEMICOLON (bind_name (tvalue (current_token ?p)) (PyInt 5)
             (read_token (read_token (read_token ?p)))))
    \<and> constants (skip_optional SEMICOLON (bind_name (tvalue (current_token ?p)) (PyInt 5)
             (read_token (read_token (read_token ?p))))) =
        AList.update (tvalue (current_token ?p)) (PyInt 5) (constants ?p)"
    by blast
  from define_and_assign [OF nq q2, of "[]"] q1
  have b: "parse_statement 1 ?q [] =
      Inr (AList.update (tvalue (current_token ?q)) (PyInt 5) [],
           skip_optional SEMICOLON (read_token (read_token (read_token ?q))))
    \<and> constants (skip_optional SEMICOLON (read_token (read_token (read_token ?q)))) = constants ?q"
    by blast
  from a b show ?thesis
    by (simp add: p0 q0 cp cq)
qed




subsection \<open>Struct, character and list forms\<close>

text \<open>
  C8. In the body of a struct literal a token that is no name, where a field name is
  expected, is skipped: the loop goes on with the next token and raises nothing. A field
  name that is not followed by \<open>=\<close> raises a syntax error. At the end of input the loop
  stops, and the closing brace that \<open>_parse_struct\<close> then asks for is missing, which
  raises a syntax error: a struct literal parses only when its loop stops at a closing
  brace.
\<close>

theorem struct_body_recovery:
  "(ttype (current_token p) \<noteq> EOF \<longrightarrow> ttype (current_token p) \<noteq> STRUCT_END \<longrightarrow>
    ttype (current_token p) \<noteq> NAME \<longrightarrow>
      parse_struct_loop (Suc n) p result = parse_struct_loop n (read_token p) result)
   \<and> (ttype (current_token p) = NAME \<longrightarrow> ttype (current_token (read_token p)) \<noteq> ASSIGN \<longrightarrow>
      parse_struct_loop (Suc n) p result =
        Inl (SyntaxError (ExpectedAssign (tline (current_token (read_token p)))
               (tcol (current_token (read_token p))) (ttype (current_token (read_token p))))))
   \<and> (ttype (current_token p) = EOF \<longrightarrow> parse_struct_loop (Suc n) p result = Inr (result, p))
   \<and> (ttype (current_token q) = STRUCT_START \<longrightarrow>
       parse_struct_loop n (read_token q) [] = Inr (r, q') \<longrightarrow> ttype (current_token q') = EOF \<longrightarrow>
         parse_struct n q = Inl (SyntaxError (Expected (tline (current_token q'))
                                  (tcol (current_token q')) STRUCT_END EOF)))
   \<and> (parse_struct n q = Inr (v, q'') \<longrightarrow>
         (\<exists>d t. parse_struct_loop n (read_token q) [] = Inr (d, t) \<and>
            ttype (current_token t) = STRUCT_END \<and> v = PyDict d \<and> q'' = read_token t))"
  by (auto simp: Let_def bind_eq_Inr eat_def split: if_splits)

theorem struct_body_recovery_witness:
  "parse_struct_loop 3 (read_token (Parser_init (Lexer_init (str ''struct{ 5 x = 1 }'')))) [] =
     parse_struct_loop 2 (read_token (read_token (Parser_init (Lexer_init (str ''struct{ 5 x = 1 }''))))) []
   \<and> parse_value 4 (Parser_init (Lexer_init (str ''struct{ 5 x = 1 }''))) =
       Inr (PyDict [(str ''x'', PyInt 1)],
            read_token (read_token (read_token (read_token (read_token (read_token
              (Parser_init (Lexer_init (str ''struct{ 5 x = 1 }''))))))))) 
   \<and> parse_struct_loop 1 (read_token (Parser_init (Lexer_init (str ''struct{ x 1 }'')))) [] =
       Inl (SyntaxError (ExpectedAssign 1 11 NUMBER))
   \<and> parse_struct 3 (Parser_init (Lexer_init (str ''struct{ x = 1''))) =
       Inl (SyntaxError (Expected 1 14 STRUCT_END EOF))"
proof -
  let ?a = "Parser_init (Lexer_init (str ''struct{ 5 x = 1 }''))"
  let ?b = "Parser_init (Lexer_init (str ''struct{ x 1 }''))"
  let ?c = "Parser_init (Lexer_init (str ''struct{ x = 1''))"
  have a1: "ttype (current_token (read_token ?a)) = NUMBER"
    by (simp add: lex_simps parse_simps)
  have a2: "parse_value 4 ?a =
       Inr (PyDict [(str ''x'', PyInt 1)],
            read_token (read_token (read_token (read_token (read_token (read_token ?a))))))"
    by (simp add: lex_simps parse_simps cong: bind_weak_cong)
  have b1: "ttype (current_token (read_token ?b)) = NAME"
    by (simp add: lex_simps parse_simps)
  have b2: "current_token (read_token (read_token ?b)) =
      \<lparr>ttype = NUMBER, tvalue = str ''1'', tline = 1, tcol = 11\<rparr>"
    by (simp add: lex_simps parse_simps)
  have c1: "ttype (current_token ?c) = STRUCT_START"
    by (simp add: lex_simps parse_simps)
  have c2: "parse_struct_loop 3 (read_token ?c) [] =
      Inr ([(str ''x'', PyInt 1)], read_token (read_token (read_token (read_token ?c))))"
    by (simp add: lex_simps parse_simps cong: bind_weak_cong)
  have c3: "current_token (read_token (read_token (read_token (read_token ?c)))) =
      \<lparr>ttype = EOF, tvalue = [], tline = 1, tcol = 14\<rparr>"
    by (simp add: lex_simps parse_simps)
  from struct_body_recovery [where p = "read_token ?a" and n = 2 and result = "[]"] a1
  have A: "parse_struct_loop 3 (read_token ?a) [] = parse_struct_loop 2 (read_token (read_token ?a)) []"
    by (simp add: numeral_3_eq_3)
  from struct_body_recovery [where p = "read_token ?b" and n = 0 and result = "[]"] b1 b2
  have B: "parse_struct_loop 1 (read_token ?b) [] = Inl (SyntaxError (ExpectedAssign 1 11 NUMBER))"
    by simp
  from struct_body_recovery [where q = ?c and n = 3 and r = "[(str ''x'', PyInt 1)]"
      and q' = "read_token (read_token (read_token (read_token ?c)))"] c1 c2 c3
  have C: "parse_struct 3 ?c = Inl (SyntaxError (Expected 1 14 STRUCT_END EOF))"
    by simp
  from A a2 B C show ?thesis by blast
qed

text \<open>
  C10. In a list literal the comma between two elements is optional. Whatever values
  stand between \<open>(list\<close> and the closing parenthesis, each of them followed by a comma or
  by none, the literal is the list of these values in their order. So \<open>(list 1 2 3)\<close> and
  \<open>(list 1,2,3)\<close> are the same list.
\<close>

theorem list_commas_optional:
  assumes "ttype (current_token p) = LIST_START"
    and "list_items n (read_token p) vs p'"
    and "ttype (current_token p') = RPAREN"
    and "n + length vs + 2 \<le> m"
  shows "parse_value m p = Inr (PyList vs, read_token p')"
proof -
  from assms(4) obtain k where m: "m = Suc k" and k: "n + length vs < k"
    by (cases m) auto
  from list_items_loop [OF assms(2) _ k, of "[]"] assms(3)
  have "parse_list_loop k (read_token p) [] = Inr (vs, p')" by simp
  with assms(1,3) m show ?thesis by simp
qed

theorem list_commas_optional_witness:
  "list_items 1 (read_token (Parser_init (Lexer_init (str ''(list 1 2 3)'')))) [PyInt 1, PyInt 2, PyInt 3]
     (read_token (read_token (read_token (read_token (Parser_init (Lexer_init (str ''(list 1 2 3)'')))))))
   \<and> list_items 1 (read_token (Parser_init (Lexer_init (str ''(list 1,2,3)'')))) [PyInt 1, PyInt 2, PyInt 3]
     (read_token (read_token (read_token (read_token (read_token (read_token
        (Parser_init (Lexer_init (str ''(list 1,2,3)'')))))))))
   \<and> parse_value 6 (Parser_init (Lexer_init (str ''(list 1 2 3)''))) =
       Inr (PyList [PyInt 1, PyInt 2, PyInt 3],
            read_token (read_token (read_token (read_token (read_token
              (Parser_init (Lexer_init (str ''(list 1 2 3)''))))))))
   \<and> parse_value 6 (Parser_init (Lexer_init (str ''(list 1,2,3)''))) =
       Inr (PyList [PyInt 1, PyInt 2, PyInt 3],
            read_token (read_token (read_token (read_token (read_token (read_token (read_token
              (Parser_init (Lexer_init (str ''(list 1,2,3)''))))))))))"
proof -
  let ?a = "Parser_init (Lexer_init (str ''(list 1 2 3)''))"
  let ?b = "Parser_init (Lexer_init (str ''(list 1,2,3)''))"
  let ?a1 = "read_token ?a"
  let ?a2 = "read_token ?a1"
  let ?a3 = "read_token ?a2"
  let ?a4 = "read_token ?a3"
  let ?b1 = "read_token ?b"
  let ?b2 = "read_token ?b1"
  let ?b3 = "read_token ?b2"
  let ?b4 = "read_token ?b3"
  let ?b5 = "read_token ?b4"
  let ?b6 = "read_token ?b5"
  have a1: "ttype (current_token ?a) = LIST_START"
    by (simp add: lex_simps parse_simps)
  have at: "ttype (current_token ?a1) \<noteq> RPAREN" "ttype (current_token ?a1) \<noteq> EOF"
    "ttype (current_token ?a2) \<noteq> RPAREN" "ttype (current_token ?a2) \<noteq> EOF"
    "ttype (current_token ?a3) \<noteq> RPAREN" "ttype (current_token ?a3) \<noteq> EOF"
    by (simp_all add: lex_simps parse_simps)
  have av: "parse_value 1 ?a1 = Inr (PyInt 1, ?a2)"
    "parse_value 1 ?a2 = Inr (PyInt 2, ?a3)"
    "parse_value 1 ?a3 = Inr (PyInt 3, ?a4)"
    by (simp_all add: lex_simps parse_simps cong: bind_weak_cong)
  have as: "skip_optional COMMA ?a2 = ?a2" "skip_optional COMMA ?a3 = ?a3"
    "skip_optional COMMA ?a4 = ?a4"
    by (simp_all add: lex_simps parse_simps)
  have a2: "list_items 1 ?a1 [PyInt 1, PyInt 2, PyInt 3] ?a4"
    by (simp only: list_items.simps at av as sum.case prod.case simp_thms)
  have a3: "ttype (current_token ?a4) = RPAREN"
    by (simp add: lex_simps parse_simps)
  have b1: "ttype (current_token ?b) = LIST_START"
    by (simp add: lex_simps parse_simps)
  have bt: "ttype (current_token ?b1) \<noteq> RPAREN" "ttype (current_token ?b1) \<noteq> EOF"
    "ttype (current_token ?b3) \<noteq> RPAREN" "ttype (current_token ?b3) \<noteq> EOF"
    "ttype (current_token ?b5) \<noteq> RPAREN" "ttype (current_token ?b5) \<noteq> EOF"
    by (simp_all add: lex_simps parse_simps)
  have bv: "parse_value 1 ?b1 = Inr (PyInt 1, ?b2)"
    "parse_value 1 ?b3 = Inr (PyInt 2, ?b4)"
    "parse_value 1 ?b5 = Inr (PyInt 3, ?b6)"
    by (simp_all add: lex_simps parse_simps cong: bind_weak_cong)
  have bs: "skip_optional COMMA ?b2 = ?b3" "skip_optional COMMA ?b4 = ?b5"
    "skip_optional COMMA ?b6 = ?b6"
    by (simp_all add: lex_simps parse_simps)
  have b2: "list_items 1 ?b1 [PyInt 1, PyInt 2, PyInt 3] ?b6"
    by (simp only: list_items.simps bt bv bs sum.case prod.case simp_thms)
  have b3: "ttype (current_token ?b6) = RPAREN"
    by (simp add: lex_simps parse_simps)
  from list_commas_optional [OF a1 a2 a3, of 6]
  have A: "parse_value 6 ?a = Inr (PyList [PyInt 1, PyInt 2, PyInt 3], read_token ?a4)"
    by simp
  from list_commas_optional [OF b1 b2 b3, of 6]
  have B: "parse_value 6 ?b = Inr (PyList [PyInt 1, PyInt 2, PyInt 3], read_token ?b6)"
    by simp
  from a2 b2 A B show ?thesis by blast
qed

text \<open>
  C9. The form \<open>chr(value)\<close>, when the value parses and a closing parenthesis follows it.
  For an integer from 0 to \<open>0x10FFFF\<close>, which are the code points, the result is the text
  of the one character with that code point. A value that is a text, a list or a struct
  gives the text \<open>?\<close>. No error is raised in these cases.
\<close>

theorem chr_form:
  assumes "ttype (current_token p) = CHR_START"
    and "parse_value n (read_token p) = Inr (arg, p2)"
    and "ttype (current_token p2) = RPAREN"
  shows "(\<forall>i. arg = PyInt i \<longrightarrow> 0 \<le> i \<longrightarrow> i \<le> 0x10FFFF \<longrightarrow>
            parse_value (Suc n) p = Inr (PyStr [nat i], read_token p2))
       \<and> (\<forall>s. arg = PyStr s \<longrightarrow> parse_value (Suc n) p = Inr (PyStr (str ''?''), read_token p2))
       \<and> (\<forall>vs. arg = PyList vs \<longrightarrow> parse_value (Suc n) p = Inr (PyStr (str ''?''), read_token p2))
       \<and> (\<forall>d. arg = PyDict d \<longrightarrow> parse_value (Suc n) p = Inr (PyStr (str ''?''), read_token p2))"
  using assms by auto

theorem chr_form_witness:
  "parse_value 2 (Parser_init (Lexer_init (str ''chr(65)''))) =
     Inr (PyStr (str ''A''), read_token (read_token (read_token (Parser_init (Lexer_init (str ''chr(65)''))))))
   \<and> parse_value 2 (Parser_init (Lexer_init (str ''chr(\"a\")''))) =
     Inr (PyStr (str ''?''), read_token (read_token (read_token (Parser_init (Lexer_init (str ''chr(\"a\")''))))))"
proof -
  let ?a = "Parser_init (Lexer_init (str ''chr(65)''))"
  let ?b = "Parser_init (Lexer_init (str ''chr(\"a\")''))"
  have a1: "ttype (current_token ?a) = CHR_START"
    and a2: "parse_value 1 (read_token ?a) = Inr (PyInt 65, read_token (read_token ?a))"
    and a3: "ttype (current_token (read_token (read_token ?a))) = RPAREN"
    by (simp_all add: lex_simps parse_simps cong: bind_weak_cong)
  have b1: "ttype (current_token ?b) = CHR_START"
    and b2: "parse_value 1 (read_token ?b) = Inr (PyStr (str ''a''), read_token (read_token ?b))"
    and b3: "ttype (current_token (read_token (read_token ?b))) = RPAREN"
    by (simp_all add: lex_simps parse_simps cong: bind_weak_cong)
  from chr_form [OF a1 a2 a3]
  have A: "parse_value 2 ?a = Inr (PyStr [nat 65], read_token (read_token (read_token ?a)))"
    by (simp add: numeral_2_eq_2)
  from chr_form [OF b1 b2 b3]
  have B: "parse_value 2 ?b = Inr (PyStr (str ''?''), read_token (read_token (read_token ?b)))"
    by (simp add: numeral_2_eq_2)
  have "str ''A'' = [nat 65]" by (simp add: str_def)
  with A B show ?thesis by simp
qed

text \<open>The claim as the specification states it fails for the integer 1114112, which is
  \<open>0x110000\<close>.\<close>

theorem chr_out_of_range_counterexample:
  "parse 20 (str ''c := chr(1114112)'') = Inl ValueError"
  by (simp add: lex_simps parse_simps cong: bind_weak_cong)

end
